theory Spec2Isabelle
  imports Complex_Main "HOL-Library.AList"
begin

section \<open>Exceptions\<close>

text \<open>
  Every \<^verbatim>\<open>raise\<close> of the source is a value of type \<open>error\<close>; a computation that may
  raise returns \<open>error + 'a\<close> with \<open>Inl\<close> for the exception. The values of \<open>error\<close>
  are subclasses of \<^verbatim>\<open>Exception\<close>, which is what \<^verbatim>\<open>except Exception\<close> catches.
  \<open>str_of_error\<close> is Python's \<^verbatim>\<open>str(e)\<close>.
\<close>

datatype error =
    Exception string
  | ValueError string
  | TypeError string
  | KeyError string
  | AttributeError string
  | ConnectionClosed

fun str_of_error :: "error \<Rightarrow> string" where
  "str_of_error (Exception s) = s"
| "str_of_error (ValueError s) = s"
| "str_of_error (TypeError s) = s"
| "str_of_error (KeyError s) = s"
| "str_of_error (AttributeError s) = s"
| "str_of_error ConnectionClosed = ''''"

text \<open>
  The exceptions that derive from \<^verbatim>\<open>BaseException\<close> but not from \<^verbatim>\<open>Exception\<close>:
  \<^verbatim>\<open>except Exception\<close> lets them pass. \<^verbatim>\<open>asyncio.CancelledError\<close> is delivered at an
  \<^verbatim>\<open>await\<close> when the unit of work is cancelled (at the shutdown of the event loop, say).
  An \<^verbatim>\<open>await\<close> ends in one of three ways: it returns a value, it raises an
  \<^verbatim>\<open>Exception\<close>, or it is left by one of these.
\<close>

datatype base_exception = CancelledError | GeneratorExit | KeyboardInterrupt | SystemExit

datatype 'a awaited = Returned 'a | Raised error | Aborted base_exception

section \<open>Timestamps\<close>

text \<open>
  A naive \<^verbatim>\<open>datetime\<close>, as every \<^verbatim>\<open>datetime.now()\<close> of the source produces.
\<close>

record datetime =
  year :: nat
  month :: nat
  day :: nat
  hour :: nat
  minute :: nat
  second :: nat
  microsecond :: nat

section \<open>AI service manager (core/ai\_service\_manager.py)\<close>

datatype AIProvider = CLAUDE | CHATGPT | GEMINI | LOCAL

datatype QueryType = ANALYSIS | GENERATION | REASONING | CREATIVE | TECHNICAL | INVESTIGATION

record AIResponse =
  provider :: AIProvider
  content :: string
  confidence :: real
  processing_time :: real
  tokens_used :: int
  cost :: real
  metadata :: "(string \<times> string) list"
  timestamp :: datetime

record QueryContext =
  agent_name :: string
  case_id :: string
  priority :: int
  query_type :: QueryType
  specialization :: string
  max_tokens :: "int option"
  temperature :: "real option"
  preferred_provider :: "AIProvider option"

text \<open>
  One entry of \<^verbatim>\<open>performance_metrics\<close>. \<open>total_queries\<close> starts at 0 and is only ever
  incremented, so it is a natural number.
\<close>

record metrics =
  total_queries :: nat
  total_time :: real
  total_cost :: real
  average_confidence :: real

text \<open>
  The manager's dictionaries. \<open>providers\<close> maps a provider kind to the name of the
  registered adapter; what an adapter's \<^verbatim>\<open>query\<close> does is outside the repository's
  control and is given by a \<open>query_oracle\<close>: \<open>q n p\<close> is the outcome of calling the adapter
  registered under \<open>p\<close> (with the prompt, context and system prompt of this call) when
  \<open>n\<close> attempts have already been made during the call.
\<close>

record AIServiceManager =
  providers :: "AIProvider \<rightharpoonup> string"
  routing_rules :: "QueryType \<rightharpoonup> AIProvider list"
  health_status :: "AIProvider \<rightharpoonup> bool"
  performance_metrics :: "AIProvider \<rightharpoonup> metrics"

type_synonym query_oracle = "nat \<Rightarrow> AIProvider \<Rightarrow> error + AIResponse"

definition initialize_routing_rules :: "QueryType \<rightharpoonup> AIProvider list" where
  "initialize_routing_rules =
     [ANALYSIS \<mapsto> [CLAUDE, CHATGPT, GEMINI],
      REASONING \<mapsto> [CLAUDE, CHATGPT, LOCAL],
      CREATIVE \<mapsto> [CHATGPT, GEMINI, CLAUDE],
      TECHNICAL \<mapsto> [CLAUDE, CHATGPT, LOCAL],
      INVESTIGATION \<mapsto> [CLAUDE, CHATGPT, GEMINI],
      GENERATION \<mapsto> [CHATGPT, GEMINI, LOCAL]]"

text \<open>\<^verbatim>\<open>AIServiceManager.__init__\<close>\<close>

definition init_manager :: AIServiceManager where
  "init_manager =
     \<lparr>providers = Map.empty, routing_rules = initialize_routing_rules,
      health_status = Map.empty, performance_metrics = Map.empty\<rparr>"

text \<open>\<^verbatim>\<open>p in self.providers\<close> and \<^verbatim>\<open>self.health_status.get(p, False)\<close>\<close>

definition registered :: "AIServiceManager \<Rightarrow> AIProvider \<Rightarrow> bool" where
  "registered m p = (providers m p \<noteq> None)"

definition health_get :: "AIServiceManager \<Rightarrow> AIProvider \<Rightarrow> bool" where
  "health_get m p = (case health_status m p of None \<Rightarrow> False | Some b \<Rightarrow> b)"

text \<open>\<^verbatim>\<open>_update_performance_metrics\<close>\<close>

definition empty_metrics :: metrics where
  "empty_metrics = \<lparr>total_queries = 0, total_time = 0, total_cost = 0, average_confidence = 0\<rparr>"

definition current_metrics :: "AIServiceManager \<Rightarrow> AIProvider \<Rightarrow> metrics" where
  "current_metrics m provider_type =
     (case performance_metrics m provider_type of None \<Rightarrow> empty_metrics | Some x \<Rightarrow> x)"

definition update_performance_metrics ::
  "AIServiceManager \<Rightarrow> AIProvider \<Rightarrow> AIResponse \<Rightarrow> AIServiceManager" where
  "update_performance_metrics m provider_type response =
     (let metrics0 = current_metrics m provider_type;
          n = total_queries metrics0 + 1;
          current_avg = average_confidence metrics0
      in m\<lparr>performance_metrics := (performance_metrics m)(provider_type \<mapsto>
            \<lparr>total_queries = n,
             total_time = total_time metrics0 + processing_time response,
             total_cost = total_cost metrics0 + cost response,
             average_confidence = (current_avg * (real n - 1) + confidence response) / real n\<rparr>)\<rparr>)"

text \<open>
  \<^verbatim>\<open>route_query\<close>. The result is what the call returns or raises, the manager afterwards,
  and the providers on which \<^verbatim>\<open>query\<close> was called, in order.

  \<open>try_providers\<close> is the \<^verbatim>\<open>for provider_type in available_providers\<close> loop; its
  last two arguments are \<^verbatim>\<open>last_error\<close> and the attempts made so far.
\<close>

type_synonym route_outcome = "(error + AIResponse) \<times> AIServiceManager \<times> AIProvider list"

fun str_of_last_error :: "error option \<Rightarrow> string" where
  "str_of_last_error None = ''None''"
| "str_of_last_error (Some e) = str_of_error e"

fun try_providers ::
  "query_oracle \<Rightarrow> nat \<Rightarrow> AIServiceManager \<Rightarrow> AIProvider list \<Rightarrow> error option
     \<Rightarrow> AIProvider list \<Rightarrow> route_outcome" where
  "try_providers q n m [] last_error tried =
     (Inl (Exception (''All AI providers failed. Last error: '' @ str_of_last_error last_error)),
      m, tried)"
| "try_providers q n m (provider_type # rest) last_error tried =
     (case q n provider_type of
        Inr response \<Rightarrow>
          (Inr response, update_performance_metrics m provider_type response,
           tried @ [provider_type])
      | Inl e \<Rightarrow> try_providers q (Suc n) m rest (Some e) (tried @ [provider_type]))"

definition provider_priorities :: "AIServiceManager \<Rightarrow> QueryContext \<Rightarrow> AIProvider list" where
  "provider_priorities m context =
     (case routing_rules m (query_type context) of None \<Rightarrow> [] | Some ps \<Rightarrow> ps)"

definition available_providers :: "AIServiceManager \<Rightarrow> QueryContext \<Rightarrow> AIProvider list" where
  "available_providers m context =
     filter (\<lambda>p. registered m p \<and> health_get m p) (provider_priorities m context)"

definition route_by_rules ::
  "query_oracle \<Rightarrow> nat \<Rightarrow> AIServiceManager \<Rightarrow> QueryContext \<Rightarrow> AIProvider list \<Rightarrow> route_outcome" where
  "route_by_rules q n m context tried =
     (if available_providers m context = []
      then (Inl (Exception ''No healthy AI providers available''), m, tried)
      else try_providers q n m (available_providers m context) None tried)"

definition preferred_usable :: "AIServiceManager \<Rightarrow> QueryContext \<Rightarrow> bool" where
  "preferred_usable m context =
     (case preferred_provider context of
        None \<Rightarrow> False
      | Some p \<Rightarrow> registered m p \<and> health_get m p)"

definition route_query ::
  "query_oracle \<Rightarrow> AIServiceManager \<Rightarrow> QueryContext \<Rightarrow> bool \<Rightarrow> route_outcome" where
  "route_query q m context fallback =
     (case preferred_provider context of
        None \<Rightarrow> route_by_rules q 0 m context []
      | Some p \<Rightarrow>
          if registered m p \<and> health_get m p
          then (case q 0 p of
                  Inr response \<Rightarrow> (Inr response, m, [p])
                | Inl e \<Rightarrow>
                    if \<not> fallback then (Inl e, m, [p])
                    else route_by_rules q 1 m context [p])
          else route_by_rules q 0 m context [])"

text \<open>Recording a sequence of responses for one provider, one call after the other.\<close>

fun record_responses ::
  "AIServiceManager \<Rightarrow> AIProvider \<Rightarrow> AIResponse list \<Rightarrow> AIServiceManager" where
  "record_responses m p [] = m"
| "record_responses m p (r # rs) = record_responses (update_performance_metrics m p r) p rs"

section \<open>Python values and JSON\<close>

text \<open>
  The values that travel in \<^verbatim>\<open>Dict[str, Any]\<close> payloads: \<^verbatim>\<open>None\<close>, booleans,
  integers, finite floats (idealised as reals), strings, lists, tuples, dictionaries with
  string keys (an association list in insertion order, keys distinct), and \<open>PObject c\<close>
  for any other object of class \<open>c\<close> (a \<^verbatim>\<open>datetime\<close>, say), which the \<^verbatim>\<open>json\<close>
  module cannot encode and which is not a container.
\<close>

datatype pyval =
    PNone
  | PBool bool
  | PInt int
  | PFloat real
  | PStr string
  | PList "pyval list"
  | PTuple "pyval list"
  | PDict "(string \<times> pyval) list"
  | PObject string

datatype json =
    JNull
  | JBool bool
  | JInt int
  | JFloat real
  | JStr string
  | JArray "json list"
  | JObject "(string \<times> json) list"

text \<open>
  \<^verbatim>\<open>json.dumps\<close> and \<^verbatim>\<open>json.loads\<close> are the standard library's. They are modelled
  by the library's conversion table between Python values and JSON values; the rendering of
  a JSON value as text and the parsing of that text are taken to be inverse to each other,
  so the wire carries a \<open>json\<close> value. \<open>dumps_value\<close> raises \<^verbatim>\<open>TypeError\<close> at the first
  object the encoder meets that it cannot encode; a tuple is encoded as an array.
  \<open>loads_value\<close> builds a dictionary by inserting the members of an object one after the
  other, so that a repeated key keeps its first position and its last value.
\<close>

fun sequence_results :: "(error + 'a) list \<Rightarrow> error + 'a list" where
  "sequence_results [] = Inr []"
| "sequence_results (Inl e # rs) = Inl e"
| "sequence_results (Inr x # rs) =
     (case sequence_results rs of Inl e \<Rightarrow> Inl e | Inr xs \<Rightarrow> Inr (x # xs))"

fun with_key :: "string \<times> (error + 'a) \<Rightarrow> error + (string \<times> 'a)" where
  "with_key (k, Inl e) = Inl e"
| "with_key (k, Inr v) = Inr (k, v)"

primrec dumps_value :: "pyval \<Rightarrow> error + json" where
  "dumps_value PNone = Inr JNull"
| "dumps_value (PBool b) = Inr (JBool b)"
| "dumps_value (PInt i) = Inr (JInt i)"
| "dumps_value (PFloat x) = Inr (JFloat x)"
| "dumps_value (PStr s) = Inr (JStr s)"
| "dumps_value (PList xs) = map_sum id JArray (sequence_results (map dumps_value xs))"
| "dumps_value (PTuple xs) = map_sum id JArray (sequence_results (map dumps_value xs))"
| "dumps_value (PDict kvs) =
     map_sum id JObject (sequence_results (map with_key (map (map_prod (\<lambda>k. k) dumps_value) kvs)))"
| "dumps_value (PObject c) =
     Inl (TypeError (''Object of type '' @ c @ '' is not JSON serializable''))"





fun is_substring :: "string \<Rightarrow> string \<Rightarrow> bool" where
  "is_substring x [] = (x = [])"
| "is_substring x (c # cs) = (take (length x) (c # cs) = x \<or> is_substring x cs)"

fun py_contains :: "pyval \<Rightarrow> string \<Rightarrow> error + bool" where
  "py_contains (PList xs) x = Inr (PStr x \<in> set xs)"
| "py_contains (PTuple xs) x = Inr (PStr x \<in> set xs)"
| "py_contains (PDict kvs) x = Inr (x \<in> set (map fst kvs))"
| "py_contains (PStr s) x = Inr (is_substring x s)"
| "py_contains v x = Inl (TypeError ''argument is not iterable'')"

section \<open>ISO-8601 rendering of timestamps\<close>

text \<open>
  \<^verbatim>\<open>datetime.isoformat\<close> of a naive datetime is \<^verbatim>\<open>YYYY-MM-DDTHH:MM:SS\<close>, followed by
  \<^verbatim>\<open>.ffffff\<close> when the microsecond is not zero. \<^verbatim>\<open>datetime.fromisoformat\<close> is modelled
  on these two shapes and rejects every other string with \<^verbatim>\<open>ValueError\<close> (the library
  accepts some more renderings, which \<open>isoformat\<close> never produces); it checks the ranges of
  the fields as the \<^verbatim>\<open>datetime\<close> constructor does.
\<close>

definition digit_char :: "nat \<Rightarrow> char" where
  "digit_char n = ''0123456789'' ! (n mod 10)"


definition pad2 :: "nat \<Rightarrow> string" where
  "pad2 n = [digit_char (n div 10), digit_char n]"

definition pad4 :: "nat \<Rightarrow> string" where
  "pad4 n = [digit_char (n div 1000), digit_char (n div 100), digit_char (n div 10), digit_char n]"

definition pad6 :: "nat \<Rightarrow> string" where
  "pad6 n = [digit_char (n div 100000), digit_char (n div 10000), digit_char (n div 1000),
             digit_char (n div 100), digit_char (n div 10), digit_char n]"





definition isoformat :: "datetime \<Rightarrow> string" where
  "isoformat d =
     pad4 (year d) @ ''-'' @ pad2 (month d) @ ''-'' @ pad2 (day d) @ ''T'' @
     pad2 (hour d) @ '':'' @ pad2 (minute d) @ '':'' @ pad2 (second d) @
     (if microsecond d = 0 then [] else ''.'' @ pad6 (microsecond d))"



section \<open>Agent framework (core/agent\_base.py)\<close>

datatype AgentStatus = OFFLINE | IDLE | WORKING | ERROR | COLLABORATION

datatype Priority = LOW | MEDIUM | HIGH | CRITICAL | EMERGENCY




type_synonym pydict = "(string \<times> pyval) list"

record AgentTask =
  task_id :: string
  task_case_id :: string
  task_type :: string
  task_priority :: Priority
  task_data :: pydict
  assigned_at :: datetime
  deadline :: "datetime option"
  progress :: real
  task_status :: string
  task_result :: "pydict option"
  task_error :: "string option"

record AgentMessage =
  msg_id :: string
  sender :: string
  recipient :: string
  message_type :: string
  msg_content :: pydict
  msg_timestamp :: datetime
  msg_priority :: Priority

text \<open>
  An agent. Dictionaries are association lists in insertion order; \<open>message_queue\<close> is the
  content of the unbounded \<^verbatim>\<open>asyncio.Queue\<close>, oldest message first; a websocket
  connection is known by a number; \<open>council_agents\<close> maps a name to the address of an agent
  in the store \<open>council\<close> below, since the directory holds references to agents that are
  shared by all of them.
\<close>

record ObsidianAgent =
  name :: string
  codename :: string
  agent_specialization :: string
  tools :: "string list"
  ai_backends :: "string list"
  status :: AgentStatus
  current_tasks :: "(string \<times> AgentTask) list"
  session_memory :: pydict
  case_assignments :: "string list"
  message_queue :: "AgentMessage list"
  websocket_connections :: "nat list"
  council_agents :: "(string \<times> nat) list"

type_synonym council = "nat \<Rightarrow> ObsidianAgent"

text \<open>
  What leaves the agent: the records published on Redis channels and the texts sent on
  websocket connections, in order.
\<close>

record sink =
  published :: "(string \<times> json) list"
  ws_sent :: "(nat \<times> json) list"

text \<open>
  What the outside does during one notification: how the \<^verbatim>\<open>await\<close> of
  \<^verbatim>\<open>redis_client.publish\<close> ends, and how the \<^verbatim>\<open>await\<close> of \<^verbatim>\<open>ws.send\<close> ends on each
  connection.
\<close>

record notify_env =
  redis_publish :: "unit awaited"
  ws_send :: "nat \<Rightarrow> unit awaited"

subsection \<open>Task assignment\<close>

text \<open>
  \<^verbatim>\<open>_can_handle_task\<close>. Its first argument is the outcome of the specialization's
  \<^verbatim>\<open>get_capabilities\<close>, which in every agent of the repository returns a literal dictionary
  and changes nothing.
\<close>

definition declared_supported_tasks :: "pydict \<Rightarrow> pyval" where
  "declared_supported_tasks capabilities =
     (case map_of capabilities ''supported_tasks'' of None \<Rightarrow> PList [] | Some v \<Rightarrow> v)"

definition can_handle_task :: "error + pydict \<Rightarrow> AgentTask \<Rightarrow> error + bool" where
  "can_handle_task get_capabilities task =
     (case get_capabilities of
        Inl e \<Rightarrow> Inl e
      | Inr capabilities \<Rightarrow> py_contains (declared_supported_tasks capabilities) (task_type task))"

text \<open>
  \<^verbatim>\<open>assign_task\<close>: \<open>assign_task_body\<close> is the \<^verbatim>\<open>try\<close> block, \<open>assign_task\<close> adds the
  \<^verbatim>\<open>except Exception: return False\<close>. The result is the returned boolean, the agent
  afterwards and the processing units handed to \<^verbatim>\<open>asyncio.create_task\<close>. Every statement
  of the block that can raise comes before the first assignment, so an exception leaves the
  agent as it was.
\<close>

definition assign_task_body ::
  "error + pydict \<Rightarrow> ObsidianAgent \<Rightarrow> AgentTask \<Rightarrow> error + (bool \<times> ObsidianAgent \<times> AgentTask list)" where
  "assign_task_body get_capabilities ag task =
     (case can_handle_task get_capabilities task of
        Inl e \<Rightarrow> Inl e
      | Inr ok \<Rightarrow>
          if \<not> ok then Inr (False, ag, [])
          else Inr (True,
                    ag\<lparr>current_tasks := AList.update (task_id task) task (current_tasks ag),
                       status := WORKING\<rparr>,
                    [task]))"

definition assign_task ::
  "error + pydict \<Rightarrow> ObsidianAgent \<Rightarrow> AgentTask \<Rightarrow> bool \<times> ObsidianAgent \<times> AgentTask list" where
  "assign_task get_capabilities ag task =
     (case assign_task_body get_capabilities ag task of
        Inl e \<Rightarrow> (False, ag, [])
      | Inr r \<Rightarrow> r)"

subsection \<open>Completion notification\<close>

text \<open>
  \<^verbatim>\<open>_broadcast_to_websockets\<close>: \<open>send_all\<close> is the loop over the connections, collecting
  the closed ones; anything else that \<^verbatim>\<open>ws.send\<close> raises leaves the loop and the function.
  \<^verbatim>\<open>remove_websocket_client\<close> removes the first occurrence of a connection in the list.
\<close>

fun send_all ::
  "(nat \<Rightarrow> unit awaited) \<Rightarrow> json \<Rightarrow> nat list \<Rightarrow> sink \<Rightarrow> nat list
     \<Rightarrow> unit awaited \<times> sink \<times> nat list" where
  "send_all snd_ws message_json [] sk disconnected = (Returned (), sk, disconnected)"
| "send_all snd_ws message_json (ws # rest) sk disconnected =
     (case snd_ws ws of
        Returned u \<Rightarrow>
          send_all snd_ws message_json rest
            (sk\<lparr>ws_sent := ws_sent sk @ [(ws, message_json)]\<rparr>) disconnected
      | Raised e \<Rightarrow>
          if e = ConnectionClosed
          then send_all snd_ws message_json rest sk (disconnected @ [ws])
          else (Raised e, sk, disconnected)
      | Aborted b \<Rightarrow> (Aborted b, sk, disconnected))"

definition remove_websocket_client :: "ObsidianAgent \<Rightarrow> nat \<Rightarrow> ObsidianAgent" where
  "remove_websocket_client ag websocket =
     (if websocket \<in> set (websocket_connections ag)
      then ag\<lparr>websocket_connections := remove1 websocket (websocket_connections ag)\<rparr>
      else ag)"

definition broadcast_to_websockets ::
  "notify_env \<Rightarrow> ObsidianAgent \<Rightarrow> sink \<Rightarrow> pyval \<Rightarrow> unit awaited \<times> ObsidianAgent \<times> sink" where
  "broadcast_to_websockets env ag sk message =
     (if websocket_connections ag = [] then (Returned (), ag, sk)
      else
        (case dumps_value message of
           Inl e \<Rightarrow> (Raised e, ag, sk)
         | Inr message_json \<Rightarrow>
             (case send_all (ws_send env) message_json (websocket_connections ag) sk [] of
                (Returned u, sk', disconnected) \<Rightarrow>
                  (Returned (), foldl remove_websocket_client ag disconnected, sk')
              | (Raised e, sk', disconnected) \<Rightarrow> (Raised e, ag, sk')
              | (Aborted b, sk', disconnected) \<Rightarrow> (Aborted b, ag, sk'))))"

text \<open>
  \<^verbatim>\<open>_notify_task_completion\<close>, with the value of \<^verbatim>\<open>datetime.now()\<close> as an argument.
  The first component of the result is how the function ends.
\<close>

definition notification_of :: "ObsidianAgent \<Rightarrow> AgentTask \<Rightarrow> datetime \<Rightarrow> pyval" where
  "notification_of ag task now =
     PDict [(''agent'', PStr (codename ag)),
            (''task_id'', PStr (task_id task)),
            (''status'', PStr (task_status task)),
            (''result'', (case task_result task of None \<Rightarrow> PNone | Some r \<Rightarrow> PDict r)),
            (''timestamp'', PStr (isoformat now))]"

definition notify_task_completion ::
  "notify_env \<Rightarrow> datetime \<Rightarrow> ObsidianAgent \<Rightarrow> sink \<Rightarrow> AgentTask
     \<Rightarrow> unit awaited \<times> ObsidianAgent \<times> sink" where
  "notify_task_completion env now ag sk task =
     (let notification = notification_of ag task now
      in case dumps_value notification of
           Inl e \<Rightarrow> (Raised e, ag, sk)
         | Inr payload \<Rightarrow>
             (case redis_publish env of
                Returned u \<Rightarrow>
                  broadcast_to_websockets env ag
                    (sk\<lparr>published := published sk @ [(''task_completions'', payload)]\<rparr>)
                    notification
              | Raised e \<Rightarrow> (Raised e, ag, sk)
              | Aborted b \<Rightarrow> (Aborted b, ag, sk)))"

subsection \<open>Task processing\<close>

text \<open>
  \<^verbatim>\<open>_process_task\<close>, run as one unit. \<open>analyze\<close> is how the \<^verbatim>\<open>await\<close> of the
  specialization's \<^verbatim>\<open>analyze(task.data, {"case_id": task.case_id})\<close> ends.
  \<open>process_task_try\<close> is the \<^verbatim>\<open>try\<close> block with its \<^verbatim>\<open>except Exception\<close> handler; it
  yields the task object as it is left and, last, the exception that passes the handler,
  if any. The block has three exits: it runs to its end, the handler catches an
  \<^verbatim>\<open>Exception\<close>, or a \<open>base_exception\<close> passes the handler, at the \<^verbatim>\<open>await\<close> of
  \<^verbatim>\<open>analyze\<close> or at one inside the notification. \<open>process_task_finally\<close> is the
  \<^verbatim>\<open>finally\<close> block, which runs on every exit.
\<close>

definition process_task_try ::
  "notify_env \<Rightarrow> datetime \<Rightarrow> pydict awaited \<Rightarrow> ObsidianAgent \<Rightarrow> sink \<Rightarrow> AgentTask
     \<Rightarrow> AgentTask \<times> ObsidianAgent \<times> sink \<times> base_exception option" where
  "process_task_try env now analyze ag sk task =
     (let task1 = task\<lparr>task_status := ''in_progress''\<rparr>
      in case analyze of
           Returned result \<Rightarrow>
             (let task2 = task1\<lparr>task_result := Some result, task_status := ''completed'',
                                progress := 100\<rparr>
              in case notify_task_completion env now ag sk task2 of
                   (Returned u, ag', sk') \<Rightarrow> (task2, ag', sk', None)
                 | (Raised e, ag', sk') \<Rightarrow>
                     (task2\<lparr>task_status := ''failed'', task_error := Some (str_of_error e)\<rparr>,
                      ag', sk', None)
                 | (Aborted b, ag', sk') \<Rightarrow> (task2, ag', sk', Some b))
         | Raised e \<Rightarrow>
             (task1\<lparr>task_status := ''failed'', task_error := Some (str_of_error e)\<rparr>, ag, sk,
              None)
         | Aborted b \<Rightarrow> (task1, ag, sk, Some b))"

definition process_task_finally :: "ObsidianAgent \<Rightarrow> AgentTask \<Rightarrow> ObsidianAgent" where
  "process_task_finally ag task =
     (let ag1 = ag\<lparr>current_tasks := AList.delete (task_id task) (current_tasks ag)\<rparr>
      in if current_tasks ag1 = [] then ag1\<lparr>status := IDLE\<rparr> else ag1)"

definition process_task ::
  "notify_env \<Rightarrow> datetime \<Rightarrow> pydict awaited \<Rightarrow> ObsidianAgent \<Rightarrow> sink \<Rightarrow> AgentTask
     \<Rightarrow> AgentTask \<times> ObsidianAgent \<times> sink \<times> base_exception option" where
  "process_task env now analyze ag sk task =
     (case process_task_try env now analyze ag sk task of
        (task', ag', sk', leaving) \<Rightarrow> (task', process_task_finally ag' task', sk', leaving))"

subsection \<open>Collaboration\<close>

text \<open>
  \<^verbatim>\<open>collaborate_with\<close> and \<^verbatim>\<open>_handle_collaboration_request\<close> act on the store of agents;
  \<open>self\<close> is the address of the acting agent and \<open>target_name\<close> the argument
  \<^verbatim>\<open>agent_name\<close>. The fresh \<^verbatim>\<open>uuid4\<close> string and the value of
  \<^verbatim>\<open>datetime.now()\<close> are arguments. \<^verbatim>\<open>put\<close> on an unbounded queue neither waits nor
  raises.
\<close>

definition queue_put :: "council \<Rightarrow> nat \<Rightarrow> AgentMessage \<Rightarrow> council" where
  "queue_put c target message =
     c(target := (c target)\<lparr>message_queue := message_queue (c target) @ [message]\<rparr>)"

definition collaborate_with ::
  "string \<Rightarrow> datetime \<Rightarrow> council \<Rightarrow> nat \<Rightarrow> string \<Rightarrow> pydict \<Rightarrow> error + council" where
  "collaborate_with uuid now c self target_name request =
     (case map_of (council_agents (c self)) target_name of
        None \<Rightarrow>
          Inl (ValueError (''Agent '' @ target_name @ '' not available for collaboration''))
      | Some target_agent \<Rightarrow>
          Inr (queue_put c target_agent
                 \<lparr>msg_id = uuid, sender = codename (c self), recipient = target_name,
                  message_type = ''collaboration_request'', msg_content = request,
                  msg_timestamp = now, msg_priority = MEDIUM\<rparr>))"

definition set_status :: "council \<Rightarrow> nat \<Rightarrow> AgentStatus \<Rightarrow> council" where
  "set_status c self st = c(self := (c self)\<lparr>status := st\<rparr>)"

definition handle_collaboration_request ::
  "string \<Rightarrow> datetime \<Rightarrow> error + pydict \<Rightarrow> council \<Rightarrow> nat \<Rightarrow> AgentMessage \<Rightarrow> council" where
  "handle_collaboration_request uuid now analyze c self message =
     (let c1 = set_status c self COLLABORATION;
          c2 = (case analyze of
                  Inl e \<Rightarrow> c1
                | Inr result \<Rightarrow>
                    (case map_of (council_agents (c1 self)) (sender message) of
                       None \<Rightarrow> c1
                     | Some sender_agent \<Rightarrow>
                         queue_put c1 sender_agent
                           \<lparr>msg_id = uuid, sender = codename (c1 self),
                            recipient = sender message,
                            message_type = ''collaboration_response'',
                            msg_content = [(''result'', PDict result)],
                            msg_timestamp = now, msg_priority = MEDIUM\<rparr>))
      in if current_tasks (c2 self) = [] then set_status c2 self IDLE else c2)"

subsection \<open>Wire shape of messages\<close>







section \<open>Sample values\<close>

definition sample_time :: datetime where
  "sample_time =
     \<lparr>year = 2024, month = 2, day = 29, hour = 13, minute = 5, second = 9, microsecond = 1500\<rparr>"

definition sample_response :: "AIProvider \<Rightarrow> real \<Rightarrow> AIResponse" where
  "sample_response p c =
     \<lparr>provider = p, content = ''ok'', confidence = c, processing_time = 2, tokens_used = 10,
      cost = 1 / 100, metadata = [], timestamp = sample_time\<rparr>"

definition sample_context :: "AIProvider option \<Rightarrow> QueryContext" where
  "sample_context pref =
     \<lparr>agent_name = ''ATLAS'', case_id = ''case-1'', priority = 2, query_type = ANALYSIS,
      specialization = ''geo'', max_tokens = None, temperature = None,
      preferred_provider = pref\<rparr>"

text \<open>Claude is registered but marked unhealthy; ChatGPT and Gemini are healthy.\<close>

definition sample_manager :: AIServiceManager where
  "sample_manager = init_manager
     \<lparr>providers := [CLAUDE \<mapsto> ''Claude'', CHATGPT \<mapsto> ''ChatGPT'', GEMINI \<mapsto> ''Gemini''],
      health_status := [CLAUDE \<mapsto> False, CHATGPT \<mapsto> True, GEMINI \<mapsto> True]\<rparr>"

text \<open>Every registered provider is marked unhealthy; Gemini is healthy but not registered.\<close>

definition all_down_manager :: AIServiceManager where
  "all_down_manager = init_manager
     \<lparr>providers := [CLAUDE \<mapsto> ''Claude'', CHATGPT \<mapsto> ''ChatGPT''],
      health_status := [CLAUDE \<mapsto> False, CHATGPT \<mapsto> False, GEMINI \<mapsto> True]\<rparr>"

definition chatgpt_fails :: query_oracle where
  "chatgpt_fails n p =
     (if p = CHATGPT then Inl (Exception ''timeout'') else Inr (sample_response p (9 / 10)))"

definition all_succeed :: query_oracle where
  "all_succeed n p = Inr (sample_response p (9 / 10))"

definition sample_task :: "string \<Rightarrow> AgentTask" where
  "sample_task ty =
     \<lparr>task_id = ''t-1'', task_case_id = ''case-1'', task_type = ty, task_priority = MEDIUM,
      task_data = [(''q'', PStr ''test'')], assigned_at = sample_time, deadline = None,
      progress = 0, task_status = ''pending'', task_result = None, task_error = None\<rparr>"

definition sample_agent :: ObsidianAgent where
  "sample_agent =
     \<lparr>name = ''ATLAS - World Mapper'', codename = ''ATLAS'',
      agent_specialization = ''Geospatial Intelligence'', tools = [],
      ai_backends = [''claude'', ''local''], status = IDLE, current_tasks = [],
      session_memory = [], case_assignments = [], message_queue = [],
      websocket_connections = [7], council_agents = [(''ORACLE'', 1)]\<rparr>"

definition sample_capabilities :: pydict where
  "sample_capabilities =
     [(''supported_tasks'', PList [PStr ''location_extraction'', PStr ''movement_analysis'']),
      (''data_sources'', PList [PStr ''GPS_coordinates''])]"

definition sample_env :: notify_env where
  "sample_env = \<lparr>redis_publish = Returned (), ws_send = (\<lambda>ws. Returned ())\<rparr>"

definition empty_sink :: sink where
  "empty_sink = \<lparr>published = [], ws_sent = []\<rparr>"

definition sample_council :: council where
  "sample_council a =
     (if a = 0 then sample_agent
      else sample_agent\<lparr>name := ''ORACLE - Identity Expert'', codename := ''ORACLE'',
                        council_agents := [(''ATLAS'', 0)]\<rparr>)"

definition sample_message :: "string \<Rightarrow> pydict \<Rightarrow> AgentMessage" where
  "sample_message from c =
     \<lparr>msg_id = ''m-1'', sender = from, recipient = ''ATLAS'',
      message_type = ''collaboration_request'', msg_content = c,
      msg_timestamp = sample_time, msg_priority = HIGH\<rparr>"

section \<open>Properties of the provider router\<close>

lemmas sample_router_defs =
  sample_manager_def all_down_manager_def init_manager_def initialize_routing_rules_def
  sample_context_def chatgpt_fails_def all_succeed_def registered_def health_get_def
  provider_priorities_def available_providers_def preferred_usable_def

lemma update_metrics_lookup:
  "performance_metrics (update_performance_metrics m p r) p =
     Some \<lparr>total_queries = total_queries (current_metrics m p) + 1,
           total_time = total_time (current_metrics m p) + processing_time r,
           total_cost = total_cost (current_metrics m p) + cost r,
           average_confidence =
             (average_confidence (current_metrics m p) * real (total_queries (current_metrics m p))
                + confidence r) / real (total_queries (current_metrics m p) + 1)\<rparr>"
  by (simp add: update_performance_metrics_def Let_def)

lemma record_responses_invariant:
  "\<exists>mt. performance_metrics (record_responses m p (r # rs)) p = Some mt
      \<and> total_queries mt = total_queries (current_metrics m p) + length (r # rs)
      \<and> average_confidence mt * real (total_queries mt) =
          average_confidence (current_metrics m p) * real (total_queries (current_metrics m p))
            + sum_list (map confidence (r # rs))"
proof (induction rs arbitrary: m r)
  case Nil
  show ?case by (simp add: update_metrics_lookup)
next
  case (Cons r' rs)
  let ?m1 = "update_performance_metrics m p r"
  from Cons.IH [of ?m1 r'] obtain mt where
    a: "performance_metrics (record_responses ?m1 p (r' # rs)) p = Some mt" and
    b: "total_queries mt = total_queries (current_metrics ?m1 p) + length (r' # rs)" and
    c: "average_confidence mt * real (total_queries mt) =
          average_confidence (current_metrics ?m1 p) * real (total_queries (current_metrics ?m1 p))
            + sum_list (map confidence (r' # rs))"
    by blast
  have d: "current_metrics ?m1 p =
         \<lparr>total_queries = total_queries (current_metrics m p) + 1,
           total_time = total_time (current_metrics m p) + processing_time r,
           total_cost = total_cost (current_metrics m p) + cost r,
           average_confidence =
             (average_confidence (current_metrics m p) * real (total_queries (current_metrics m p))
                + confidence r) / real (total_queries (current_metrics m p) + 1)\<rparr>"
    using update_metrics_lookup [of m p r] by (simp add: current_metrics_def)
  show ?case using a b c by (simp add: d)
qed

text \<open>
  C4. When no provider of the category's routing list is both registered and marked
  healthy, and the preferred provider (if any) is not usable either, \<open>route_query\<close> raises
  "No healthy AI providers available", leaves the manager unchanged and calls no
  provider's \<open>query\<close>.
\<close>

theorem route_query_no_healthy_provider:
  assumes "\<forall>p \<in> set (provider_priorities m context). \<not> (registered m p \<and> health_get m p)"
      and "\<not> preferred_usable m context"
  shows "route_query q m context fallback =
           (Inl (Exception ''No healthy AI providers available''), m, [])"
proof -
  have a: "available_providers m context = []"
    using assms(1) by (simp add: available_providers_def filter_empty_conv)
  show ?thesis
  proof (cases "preferred_provider context")
    case None
    then show ?thesis by (simp add: route_query_def route_by_rules_def a)
  next
    case (Some p)
    with assms(2) have "\<not> (registered m p \<and> health_get m p)"
      by (simp add: preferred_usable_def)
    with Some show ?thesis by (auto simp: route_query_def route_by_rules_def a)
  qed
qed

theorem route_query_no_healthy_provider_witness:
  "provider_priorities all_down_manager (sample_context (Some CLAUDE)) =
     [CLAUDE, CHATGPT, GEMINI]
   \<and> \<not> preferred_usable all_down_manager (sample_context (Some CLAUDE))
   \<and> route_query all_succeed all_down_manager (sample_context (Some CLAUDE)) True =
       (Inl (Exception ''No healthy AI providers available''), all_down_manager, [])"
proof -
  have h1: "\<forall>p \<in> set (provider_priorities all_down_manager (sample_context (Some CLAUDE))).
       \<not> (registered all_down_manager p \<and> health_get all_down_manager p)"
    by (simp add: sample_router_defs)
  have h2: "\<not> preferred_usable all_down_manager (sample_context (Some CLAUDE))"
    by (simp add: sample_router_defs)
  have h3: "provider_priorities all_down_manager (sample_context (Some CLAUDE)) =
     [CLAUDE, CHATGPT, GEMINI]"
    by (simp add: sample_router_defs)
  from route_query_no_healthy_provider [OF h1 h2, of all_succeed True] h2 h3
  show ?thesis by blast
qed

text \<open>
  C1, as the code has it. With routing order \<open>[C, A, B]\<close>, \<open>A\<close> and \<open>B\<close> registered and
  healthy, \<open>C\<close> unhealthy, and no usable preferred provider (none given, or one that is
  not registered or not healthy): \<open>route_query\<close> calls \<open>A\<close> first, and when that call raises
  it calls \<open>B\<close> next and returns \<open>B\<close>'s response, recording it in \<open>B\<close>'s metrics. No other
  provider is called.
\<close>

theorem route_query_failover_order:
  assumes "routing_rules m (query_type context) = Some [C, A, B]"
      and "registered m A" and "registered m B"
      and "health_status m A = Some True" and "health_status m B = Some True"
      and "health_status m C = Some False"
      and "\<not> preferred_usable m context"
      and "q 0 A = Inl e" and "q 1 B = Inr r"
  shows "route_query q m context fallback =
           (Inr r, update_performance_metrics m B r, [A, B])"
proof -
  have a: "available_providers m context = [A, B]"
    using assms(1-6) by (simp add: available_providers_def provider_priorities_def health_get_def)
  have b: "route_by_rules q 0 m context [] = (Inr r, update_performance_metrics m B r, [A, B])"
    using assms(8,9) by (simp add: route_by_rules_def a)
  show ?thesis
  proof (cases "preferred_provider context")
    case None
    then show ?thesis by (simp add: route_query_def b)
  next
    case (Some p)
    with assms(7) have "\<not> (registered m p \<and> health_get m p)"
      by (simp add: preferred_usable_def)
    with Some show ?thesis by (auto simp: route_query_def b)
  qed
qed

theorem route_query_failover_order_witness:
  "route_query chatgpt_fails sample_manager (sample_context (Some CLAUDE)) True =
     (Inr (sample_response GEMINI (9 / 10)),
      update_performance_metrics sample_manager GEMINI (sample_response GEMINI (9 / 10)),
      [CHATGPT, GEMINI])"
proof -
  have "routing_rules sample_manager (query_type (sample_context (Some CLAUDE))) =
          Some [CLAUDE, CHATGPT, GEMINI]"
    by (simp add: sample_router_defs)
  moreover have "registered sample_manager CHATGPT" "registered sample_manager GEMINI"
    by (simp_all add: sample_router_defs)
  moreover have "health_status sample_manager CHATGPT = Some True"
    "health_status sample_manager GEMINI = Some True"
    "health_status sample_manager CLAUDE = Some False"
    by (simp_all add: sample_router_defs)
  moreover have "\<not> preferred_usable sample_manager (sample_context (Some CLAUDE))"
    by (simp add: sample_router_defs)
  moreover have "chatgpt_fails 0 CHATGPT = Inl (Exception ''timeout'')"
     "chatgpt_fails 1 GEMINI = Inr (sample_response GEMINI (9 / 10))"
    by (simp_all add: sample_router_defs)
  ultimately show ?thesis by (rule route_query_failover_order)
qed

text \<open>
  C1 as stated fails when the caller prefers a healthy registered provider. The routing
  order is \<open>[CLAUDE, CHATGPT, GEMINI]\<close>, Claude is unhealthy, ChatGPT and Gemini are
  healthy, ChatGPT's \<open>query\<close> would raise, and the context prefers Gemini: Gemini is the
  only provider called, ChatGPT is never attempted.
\<close>

theorem route_query_preferred_first_counterexample:
  "routing_rules sample_manager (query_type (sample_context (Some GEMINI))) =
     Some [CLAUDE, CHATGPT, GEMINI]
   \<and> registered sample_manager CHATGPT \<and> registered sample_manager GEMINI
   \<and> health_status sample_manager CHATGPT = Some True
   \<and> health_status sample_manager GEMINI = Some True
   \<and> health_status sample_manager CLAUDE = Some False
   \<and> chatgpt_fails 0 CHATGPT = Inl (Exception ''timeout'')
   \<and> route_query chatgpt_fails sample_manager (sample_context (Some GEMINI)) True =
       (Inr (sample_response GEMINI (9 / 10)), sample_manager, [GEMINI])
   \<and> snd (snd (route_query chatgpt_fails sample_manager (sample_context (Some GEMINI)) True))
       \<noteq> [CHATGPT, GEMINI]"
  by (simp add: sample_router_defs route_query_def)

text \<open>
  C5 at its failing input. A query served by the preferred provider (Gemini, registered
  and healthy) returns the response and leaves \<open>performance_metrics\<close> without an entry for
  Gemini, whereas the same manager serving a query through the routing list records the
  response of the provider that served it.
\<close>

theorem preferred_provider_skips_metrics:
  "route_query all_succeed sample_manager (sample_context (Some GEMINI)) True =
       (Inr (sample_response GEMINI (9 / 10)), sample_manager, [GEMINI])
   \<and> performance_metrics
        (fst (snd (route_query all_succeed sample_manager (sample_context (Some GEMINI)) True)))
        GEMINI = None
   \<and> performance_metrics
        (fst (snd (route_query all_succeed sample_manager (sample_context None) True)))
        CHATGPT =
       Some \<lparr>total_queries = 1, total_time = 2, total_cost = 1 / 100,
             average_confidence = 9 / 10\<rparr>"
  by (simp add: sample_router_defs route_query_def route_by_rules_def
        update_performance_metrics_def current_metrics_def empty_metrics_def
        sample_response_def Let_def)

text \<open>
  C9. For a provider without metrics, recording a response of confidence 0.9 and then one
  of confidence 0.7 stores the average 0.8 and the count 2; and recording any non-empty
  sequence of responses stores their number as the count and the arithmetic mean of their
  confidences as the average. Confidences are real numbers here: the rounding of floating
  point arithmetic is not part of the model.
\<close>

theorem running_average_confidence:
  assumes "performance_metrics m p = None"
  shows "performance_metrics
           (record_responses m p [r1\<lparr>confidence := 9 / 10\<rparr>, r2\<lparr>confidence := 7 / 10\<rparr>]) p =
           Some \<lparr>total_queries = 2, total_time = processing_time r1 + processing_time r2,
                 total_cost = cost r1 + cost r2, average_confidence = 8 / 10\<rparr>
         \<and> (\<exists>mt. performance_metrics (record_responses m p (r # rs)) p = Some mt
               \<and> total_queries mt = length (r # rs)
               \<and> average_confidence mt =
                   sum_list (map confidence (r # rs)) / real (length (r # rs)))"
proof
  show "performance_metrics
           (record_responses m p [r1\<lparr>confidence := 9 / 10\<rparr>, r2\<lparr>confidence := 7 / 10\<rparr>]) p =
           Some \<lparr>total_queries = 2, total_time = processing_time r1 + processing_time r2,
                 total_cost = cost r1 + cost r2, average_confidence = 8 / 10\<rparr>"
    using assms
    by (simp add: update_performance_metrics_def current_metrics_def Let_def empty_metrics_def)
next
  have e: "current_metrics m p = empty_metrics"
    using assms by (simp add: current_metrics_def)
  from record_responses_invariant [of m p r rs] obtain mt where
    a: "performance_metrics (record_responses m p (r # rs)) p = Some mt" and
    b: "total_queries mt = total_queries (current_metrics m p) + length (r # rs)" and
    c: "average_confidence mt * real (total_queries mt) =
          average_confidence (current_metrics m p) * real (total_queries (current_metrics m p))
            + sum_list (map confidence (r # rs))"
    by blast
  from b e have b': "total_queries mt = length (r # rs)"
    by (simp add: empty_metrics_def)
  from c e b' have "average_confidence mt * real (length (r # rs)) =
      sum_list (map confidence (r # rs))"
    by (simp add: empty_metrics_def)
  then have "average_confidence mt = sum_list (map confidence (r # rs)) / real (length (r # rs))"
    by (simp add: field_simps)
  with a b' show "\<exists>mt. performance_metrics (record_responses m p (r # rs)) p = Some mt
               \<and> total_queries mt = length (r # rs)
               \<and> average_confidence mt =
                   sum_list (map confidence (r # rs)) / real (length (r # rs))"
    by blast
qed

theorem running_average_confidence_witness:
  "performance_metrics init_manager CLAUDE = None
   \<and> performance_metrics
       (record_responses init_manager CLAUDE
          [sample_response CLAUDE (9 / 10), sample_response CLAUDE (7 / 10)]) CLAUDE =
       Some \<lparr>total_queries = 2, total_time = 4, total_cost = 2 / 100,
             average_confidence = 8 / 10\<rparr>
   \<and> (\<exists>mt. performance_metrics
              (record_responses init_manager CLAUDE
                 [sample_response CLAUDE (9 / 10), sample_response CLAUDE (7 / 10),
                  sample_response CLAUDE (5 / 10)]) CLAUDE = Some mt
          \<and> total_queries mt = 3 \<and> average_confidence mt = 7 / 10)"
proof -
  have h: "performance_metrics init_manager CLAUDE = None"
    by (simp add: init_manager_def)
  from running_average_confidence [OF h,
      of "sample_response CLAUDE 0" "sample_response CLAUDE 0"
         "sample_response CLAUDE (9 / 10)"
         "[sample_response CLAUDE (7 / 10), sample_response CLAUDE (5 / 10)]"] h
  show ?thesis by (simp add: sample_response_def numeral_3_eq_3)
qed

section \<open>Properties of the agent framework\<close>

lemmas sample_agent_defs = sample_task_def sample_agent_def sample_capabilities_def
  sample_env_def empty_sink_def sample_council_def sample_message_def sample_time_def

text \<open>
  C3. When the capabilities declare a list of supported tasks (or none at all, which counts
  as the empty list) and the task's type is not in it, \<open>assign_task\<close> returns \<open>False\<close>
  without raising, leaves the agent, and so its status and current-task table, exactly as
  it was, and schedules no processing unit.
\<close>

theorem assign_task_rejects_unsupported:
  assumes "declared_supported_tasks capabilities = PList ts"
      and "PStr (task_type task) \<notin> set ts"
  shows "assign_task (Inr capabilities) ag task = (False, ag, [])"
  using assms by (simp add: assign_task_def assign_task_body_def can_handle_task_def)

theorem assign_task_rejects_unsupported_witness:
  "assign_task (Inr sample_capabilities) sample_agent (sample_task ''facial_recognition'')
     = (False, sample_agent, [])"
proof -
  have h1: "declared_supported_tasks sample_capabilities =
      PList [PStr ''location_extraction'', PStr ''movement_analysis'']"
    by (simp add: declared_supported_tasks_def sample_capabilities_def)
  have h2: "PStr (task_type (sample_task ''facial_recognition'')) \<notin>
      set [PStr ''location_extraction'', PStr ''movement_analysis'']"
    by (simp add: sample_task_def)
  from assign_task_rejects_unsupported [OF h1 h2] show ?thesis .
qed

text \<open>
  C10. \<open>assign_task\<close> never propagates an exception: when \<open>get_capabilities\<close> raises, or
  when the capability check raises for any other reason, the call returns \<open>False\<close> with the
  agent unchanged, which is exactly what it returns for an unsupported task type; and it
  returns \<open>True\<close> precisely when the check succeeds.
\<close>

theorem assign_task_never_raises:
  "assign_task (Inl e) ag task = (False, ag, [])
   \<and> (can_handle_task gc task = Inl e' \<longrightarrow> assign_task gc ag task = (False, ag, []))
   \<and> (can_handle_task gc task = Inr False \<longrightarrow> assign_task gc ag task = (False, ag, []))
   \<and> (fst (assign_task gc ag task) = (can_handle_task gc task = Inr True))"
  by (auto simp: assign_task_def assign_task_body_def can_handle_task_def
       split: sum.splits)

theorem assign_task_never_raises_witness:
  "can_handle_task (Inr [(''supported_tasks'', PInt 3)]) (sample_task ''x'') =
      Inl (TypeError ''argument is not iterable'')
   \<and> assign_task (Inr [(''supported_tasks'', PInt 3)]) sample_agent (sample_task ''x'') =
      (False, sample_agent, [])
   \<and> assign_task (Inl (Exception ''capabilities unavailable'')) sample_agent (sample_task ''x'') =
      (False, sample_agent, [])"
proof -
  have h: "can_handle_task (Inr [(''supported_tasks'', PInt 3)]) (sample_task ''x'') =
      Inl (TypeError ''argument is not iterable'')"
    by (simp add: can_handle_task_def declared_supported_tasks_def)
  from assign_task_never_raises [of "Exception ''capabilities unavailable''" sample_agent
      "sample_task ''x''" "Inr [(''supported_tasks'', PInt 3)]" "TypeError ''argument is not iterable''"] h
  show ?thesis by simp
qed

subsection \<open>Task processing\<close>

lemma process_task_finally_props:
  "map_of (current_tasks (process_task_finally ag t)) (task_id t) = None
   \<and> (current_tasks (process_task_finally ag t) = [] \<longrightarrow> status (process_task_finally ag t) = IDLE)"
  by (simp add: process_task_finally_def Let_def AList.delete_conv')

lemma process_task_try_status:
  assumes "\<forall>b. analyze \<noteq> Aborted b"
  shows "task_status (fst (process_task_try env now analyze ag sk t)) = ''completed''
       \<or> task_status (fst (process_task_try env now analyze ag sk t)) = ''failed''"
  using assms
  by (simp add: process_task_try_def Let_def split: awaited.splits prod.splits)

lemma process_task_try_aborted:
  "process_task_try env now (Aborted b) ag sk t =
     (t\<lparr>task_status := ''in_progress''\<rparr>, ag, sk, Some b)"
  by (simp add: process_task_try_def Let_def)

lemma process_task_try_id:
  "task_id (fst (process_task_try env now analyze ag sk t)) = task_id t"
  by (simp add: process_task_try_def Let_def split: awaited.splits prod.splits)

text \<open>
  C7 as stated fails when the unit of work is cancelled while it waits for \<open>analyze\<close>:
  \<^verbatim>\<open>asyncio.CancelledError\<close> is not an \<^verbatim>\<open>Exception\<close>, so the handler that sets \<open>failed\<close>
  is passed over, the \<^verbatim>\<open>finally\<close> block removes the task and sets the agent \<open>IDLE\<close>, and
  the task is left \<open>in_progress\<close>, neither \<open>completed\<close> nor \<open>failed\<close>, while the
  exception leaves the unit.
\<close>

theorem process_task_cancelled_counterexample:
  "assign_task (Inr sample_capabilities) sample_agent (sample_task ''location_extraction'') =
     (True,
      sample_agent\<lparr>current_tasks := [(''t-1'', sample_task ''location_extraction'')],
                   status := WORKING\<rparr>,
      [sample_task ''location_extraction''])
   \<and> process_task sample_env sample_time (Aborted CancelledError)
         (sample_agent\<lparr>current_tasks := [(''t-1'', sample_task ''location_extraction'')],
                       status := WORKING\<rparr>)
         empty_sink (sample_task ''location_extraction'') =
       ((sample_task ''location_extraction'')\<lparr>task_status := ''in_progress''\<rparr>,
        sample_agent, empty_sink, Some CancelledError)
   \<and> task_status ((sample_task ''location_extraction'')\<lparr>task_status := ''in_progress''\<rparr>)
       \<noteq> ''completed''
   \<and> task_status ((sample_task ''location_extraction'')\<lparr>task_status := ''in_progress''\<rparr>)
       \<noteq> ''failed''"
  by (simp add: assign_task_def assign_task_body_def can_handle_task_def
        declared_supported_tasks_def sample_capabilities_def sample_task_def sample_agent_def
        process_task_def process_task_try_def process_task_finally_def Let_def)

text \<open>
  C7, as the code has it. A task accepted by \<open>assign_task\<close> is the one handed to the
  scheduler, and once its processing unit has run (from whatever state the agent is in by
  then), however it ends, the task is absent from the current-task table, and if the table
  is then empty the agent's status is \<open>IDLE\<close>. When the wait for \<open>analyze\<close> ends by a
  return or by an \<^verbatim>\<open>Exception\<close>, the task's status is \<open>completed\<close> or \<open>failed\<close> and not
  both. When it ends by an exception that \<^verbatim>\<open>except Exception\<close> does not catch, the task
  is left \<open>in_progress\<close> and that exception leaves the unit.
\<close>

theorem accepted_task_reaches_terminal_state:
  assumes "assign_task gc ag task = (True, ag1, units)"
      and "u \<in> set units"
      and "process_task env now analyze ag_run sk u = (u', ag2, sk', leaving)"
  shows "u = task
       \<and> task_id u' = task_id task
       \<and> map_of (current_tasks ag2) (task_id task) = None
       \<and> (current_tasks ag2 = [] \<longrightarrow> status ag2 = IDLE)
       \<and> ((\<forall>b. analyze \<noteq> Aborted b) \<longrightarrow>
            (task_status u' = ''completed'' \<or> task_status u' = ''failed'')
            \<and> \<not> (task_status u' = ''completed'' \<and> task_status u' = ''failed''))
       \<and> (\<forall>b. analyze = Aborted b \<longrightarrow>
            task_status u' = ''in_progress'' \<and> leaving = Some b)"
proof -
  from assms(1,2) have u: "u = task"
    by (auto simp: assign_task_def assign_task_body_def split: sum.splits if_splits)
  obtain t1 a1 s1 l1 where
    tr: "process_task_try env now analyze ag_run sk u = (t1, a1, s1, l1)"
    by (cases "process_task_try env now analyze ag_run sk u") auto
  with assms(3) have eqs: "u' = t1" "ag2 = process_task_finally a1 t1" "leaving = l1"
    by (auto simp: process_task_def)
  have st: "(\<forall>b. analyze \<noteq> Aborted b) \<longrightarrow>
      task_status t1 = ''completed'' \<or> task_status t1 = ''failed''"
    using process_task_try_status [of analyze env now ag_run sk u] tr by simp
  have ab: "\<forall>b. analyze = Aborted b \<longrightarrow> task_status t1 = ''in_progress'' \<and> l1 = Some b"
    using process_task_try_aborted [of env now _ ag_run sk u] tr by auto
  have idt: "task_id t1 = task_id u"
    using process_task_try_id [of env now analyze ag_run sk u] tr by simp
  from process_task_finally_props [of a1 t1] idt u eqs
  have fin: "task_id u' = task_id task"
            "map_of (current_tasks ag2) (task_id task) = None"
            "current_tasks ag2 = [] \<longrightarrow> status ag2 = IDLE"
    by auto
  from st ab eqs have terminal:
    "(\<forall>b. analyze \<noteq> Aborted b) \<longrightarrow>
       (task_status u' = ''completed'' \<or> task_status u' = ''failed'')
       \<and> \<not> (task_status u' = ''completed'' \<and> task_status u' = ''failed'')"
    "\<forall>b. analyze = Aborted b \<longrightarrow> task_status u' = ''in_progress'' \<and> leaving = Some b"
    by auto
  from u fin terminal show ?thesis by blast
qed

text \<open>
  C2 at its failing input. When \<open>analyze\<close> raises, the task ends \<open>failed\<close> with the error
  text stored, and the sink is left as it was: nothing is published on the completion
  channel and nothing is sent to the websocket listeners.
\<close>

theorem failed_task_publishes_nothing:
  "process_task env now (Raised e) ag sk task =
     (task\<lparr>task_status := ''failed'', task_error := Some (str_of_error e)\<rparr>,
      process_task_finally ag task, sk, None)"
  by (simp add: process_task_def process_task_try_def process_task_finally_def Let_def)

subsection \<open>Collaboration\<close>

text \<open>
  C6 as stated fails for \<open>collaborate_with\<close>: a recipient that is absent from the
  directory makes the call raise \<^verbatim>\<open>ValueError\<close>.
\<close>

theorem collaborate_with_absent_counterexample:
  "map_of (council_agents (sample_council 0)) ''GHOST'' = None
   \<and> collaborate_with ''u-1'' sample_time sample_council 0 ''GHOST'' [(''q'', PStr ''test'')] =
       Inl (ValueError ''Agent GHOST not available for collaboration'')"
  by (simp add: collaborate_with_def sample_council_def sample_agent_def)

text \<open>
  C6, as the code has it. For a name absent from the directory, \<open>collaborate_with\<close>
  raises \<^verbatim>\<open>ValueError\<close> and changes nothing, while the collaboration-request handler
  answering a sender of that name completes without raising and leaves every mailbox as
  it was: the response is dropped.
\<close>

theorem absent_recipient_no_mailbox_mutated:
  assumes "map_of (council_agents (c self)) target = None"
  shows "collaborate_with uuid now c self target request =
           Inl (ValueError (''Agent '' @ target @ '' not available for collaboration''))
       \<and> (sender message = target \<longrightarrow>
            (\<forall>a. message_queue (handle_collaboration_request uuid' now' analyze c self message a)
                   = message_queue (c a)))"
  using assms
  by (auto simp: collaborate_with_def handle_collaboration_request_def set_status_def Let_def
        split: sum.splits)


theorem accepted_task_reaches_terminal_state_witness:
  "assign_task (Inr sample_capabilities) sample_agent (sample_task ''location_extraction'') =
     (True,
      sample_agent\<lparr>current_tasks := [(''t-1'', sample_task ''location_extraction'')],
                   status := WORKING\<rparr>,
      [sample_task ''location_extraction''])
   \<and> task_status (fst (process_task sample_env sample_time (Returned [(''found'', PInt 3)])
         (sample_agent\<lparr>current_tasks := [(''t-1'', sample_task ''location_extraction'')],
                       status := WORKING\<rparr>)
         empty_sink (sample_task ''location_extraction''))) = ''completed''
   \<and> map_of (current_tasks (fst (snd (process_task sample_env sample_time
         (Returned [(''found'', PInt 3)])
         (sample_agent\<lparr>current_tasks := [(''t-1'', sample_task ''location_extraction'')],
                       status := WORKING\<rparr>)
         empty_sink (sample_task ''location_extraction''))))) ''t-1'' = None
   \<and> status (fst (snd (process_task sample_env sample_time (Returned [(''found'', PInt 3)])
         (sample_agent\<lparr>current_tasks := [(''t-1'', sample_task ''location_extraction'')],
                       status := WORKING\<rparr>)
         empty_sink (sample_task ''location_extraction'')))) = IDLE
   \<and> snd (snd (snd (process_task sample_env sample_time (Returned [(''found'', PInt 3)])
         (sample_agent\<lparr>current_tasks := [(''t-1'', sample_task ''location_extraction'')],
                       status := WORKING\<rparr>)
         empty_sink (sample_task ''location_extraction'')))) = None
   \<and> task_status (fst (process_task sample_env sample_time (Aborted GeneratorExit)
         (sample_agent\<lparr>current_tasks := [(''t-1'', sample_task ''location_extraction'')],
                       status := WORKING\<rparr>)
         empty_sink (sample_task ''location_extraction''))) = ''in_progress''
   \<and> snd (snd (snd (process_task sample_env sample_time (Aborted GeneratorExit)
         (sample_agent\<lparr>current_tasks := [(''t-1'', sample_task ''location_extraction'')],
                       status := WORKING\<rparr>)
         empty_sink (sample_task ''location_extraction'')))) = Some GeneratorExit"
proof -
  let ?t = "sample_task ''location_extraction''"
  let ?ag1 = "sample_agent\<lparr>current_tasks := [(''t-1'', ?t)], status := WORKING\<rparr>"
  let ?run = "process_task sample_env sample_time (Returned [(''found'', PInt 3)]) ?ag1
                empty_sink ?t"
  let ?cut = "process_task sample_env sample_time (Aborted GeneratorExit) ?ag1 empty_sink ?t"
  have h1: "assign_task (Inr sample_capabilities) sample_agent ?t = (True, ?ag1, [?t])"
    by (simp add: assign_task_def assign_task_body_def can_handle_task_def
          declared_supported_tasks_def sample_capabilities_def sample_task_def sample_agent_def)
  have h2: "?t \<in> set [?t]" by simp
  have h3: "?run = (fst ?run, fst (snd ?run), fst (snd (snd ?run)), snd (snd (snd ?run)))"
    by simp
  have h4: "?cut = (fst ?cut, fst (snd ?cut), fst (snd (snd ?cut)), snd (snd (snd ?cut)))"
    by simp
  have st: "task_status (fst ?run) = ''completed''"
    by (simp add: process_task_def process_task_try_def notify_task_completion_def
          notification_of_def broadcast_to_websockets_def sample_env_def sample_agent_def
          empty_sink_def sample_task_def Let_def split: prod.splits)
  have em: "current_tasks (fst (snd ?run)) = []"
    by (simp add: process_task_def process_task_try_def process_task_finally_def
          notify_task_completion_def
          notification_of_def broadcast_to_websockets_def sample_env_def sample_agent_def
          empty_sink_def sample_task_def Let_def split: prod.splits)
  have lv: "snd (snd (snd ?run)) = None"
    by (simp add: process_task_def process_task_try_def notify_task_completion_def
          notification_of_def broadcast_to_websockets_def sample_env_def sample_agent_def
          empty_sink_def sample_task_def Let_def split: prod.splits)
  from accepted_task_reaches_terminal_state [OF h1 h2 h3]
       accepted_task_reaches_terminal_state [OF h1 h2 h4] h1 st em lv
  show ?thesis by (simp add: sample_task_def)
qed

theorem absent_recipient_no_mailbox_mutated_witness:
  "collaborate_with ''u-1'' sample_time sample_council 0 ''GHOST'' [(''q'', PStr ''test'')] =
       Inl (ValueError ''Agent GHOST not available for collaboration'')
   \<and> message_queue (handle_collaboration_request ''u-2'' sample_time (Inr [(''a'', PInt 1)])
        sample_council 0 (sample_message ''GHOST'' [(''q'', PStr ''test'')]) 0) = []
   \<and> message_queue (handle_collaboration_request ''u-2'' sample_time (Inr [(''a'', PInt 1)])
        sample_council 0 (sample_message ''GHOST'' [(''q'', PStr ''test'')]) 1) = []
   \<and> message_queue (handle_collaboration_request ''u-2'' sample_time (Inr [(''a'', PInt 1)])
        sample_council 0 (sample_message ''ORACLE'' [(''q'', PStr ''test'')]) 1) =
       [\<lparr>msg_id = ''u-2'', sender = ''ATLAS'', recipient = ''ORACLE'',
         message_type = ''collaboration_response'',
         msg_content = [(''result'', PDict [(''a'', PInt 1)])],
         msg_timestamp = sample_time, msg_priority = MEDIUM\<rparr>]"
proof -
  have h: "map_of (council_agents (sample_council 0)) ''GHOST'' = None"
    by (simp add: sample_council_def sample_agent_def)
  have s: "sender (sample_message ''GHOST'' [(''q'', PStr ''test'')]) = ''GHOST''"
    by (simp add: sample_message_def)
  have q: "message_queue (sample_council 0) = []" "message_queue (sample_council 1) = []"
    by (simp_all add: sample_council_def sample_agent_def)
  have live: "message_queue (handle_collaboration_request ''u-2'' sample_time (Inr [(''a'', PInt 1)])
        sample_council 0 (sample_message ''ORACLE'' [(''q'', PStr ''test'')]) 1) =
       [\<lparr>msg_id = ''u-2'', sender = ''ATLAS'', recipient = ''ORACLE'',
         message_type = ''collaboration_response'',
         msg_content = [(''result'', PDict [(''a'', PInt 1)])],
         msg_timestamp = sample_time, msg_priority = MEDIUM\<rparr>]"
    by (simp add: handle_collaboration_request_def set_status_def queue_put_def Let_def
          sample_council_def sample_agent_def sample_message_def)
  from absent_recipient_no_mailbox_mutated
      [where c = sample_council and self = 0 and target = "''GHOST''" and uuid = "''u-1''"
         and now = sample_time and request = "[(''q'', PStr ''test'')]"
         and message = "sample_message ''GHOST'' [(''q'', PStr ''test'')]"
         and uuid' = "''u-2''" and now' = sample_time and analyze = "Inr [(''a'', PInt 1)]"]
    h s q live
  show ?thesis by simp
qed

section \<open>Properties of the wire shape\<close>

subsection \<open>JSON values\<close>









subsection \<open>Timestamps\<close>















subsection \<open>Messages\<close>





end
